theory Spec2Isabelle
  imports Complex_Main "HOL-Library.Sublist"
begin

section \<open>Python strings\<close>

text \<open>
  A Python \<open>str\<close> is a sequence of Unicode code points; it is modelled as a list of
  code points. Literals of the source are written as HOL strings and injected with \<open>u\<close>.
\<close>

type_synonym pystr = "nat list"

definition u :: "string \<Rightarrow> pystr" where
  "u s = map of_char s"

text \<open>
  \<open>str.isspace\<close> on one code point: the white space table of CPython
  (\<open>_PyUnicode_IsWhitespace\<close>), which \<open>str.strip()\<close> without argument uses.
\<close>

definition py_isspace :: "nat \<Rightarrow> bool" where
  "py_isspace c \<longleftrightarrow>
     (9 \<le> c \<and> c \<le> 13) \<or> (28 \<le> c \<and> c \<le> 32) \<or> c = 133 \<or> c = 160 \<or> c = 5760 \<or>
     (8192 \<le> c \<and> c \<le> 8202) \<or> c = 8232 \<or> c = 8233 \<or> c = 8239 \<or> c = 8287 \<or> c = 12288"

definition lstrip :: "pystr \<Rightarrow> pystr" where
  "lstrip s = dropWhile py_isspace s"

definition rstrip :: "pystr \<Rightarrow> pystr" where
  "rstrip s = rev (dropWhile py_isspace (rev s))"

definition strip :: "pystr \<Rightarrow> pystr" where
  "strip s = rstrip (lstrip s)"

definition startswith :: "pystr \<Rightarrow> pystr \<Rightarrow> bool" where
  "startswith s p = prefix p s"

definition endswith :: "pystr \<Rightarrow> pystr \<Rightarrow> bool" where
  "endswith s p = suffix p s"

text \<open>\<open>s.replace(old, new, 1)\<close>: the first occurrence of \<open>old\<close> in \<open>s\<close> is replaced.\<close>

fun replace_first :: "pystr \<Rightarrow> pystr \<Rightarrow> pystr \<Rightarrow> pystr" where
  "replace_first old new [] = (if old = [] then new else [])"
| "replace_first old new (c # cs) =
     (if prefix old (c # cs) then new @ drop (length old) (c # cs)
      else c # replace_first old new cs)"

section \<open>Markup post-processing\<close>

text \<open>
  \<open>clean_ai_html_response\<close>: a leading \<open>```html\<close> is replaced by nothing, a trailing
  \<open>```\<close> is cut (\<open>response[:-3]\<close>), and the result is stripped.
\<close>

definition clean_ai_html_response :: "pystr \<Rightarrow> pystr" where
  "clean_ai_html_response response =
     (let r1 = (if startswith response (u ''```html'')
                then replace_first (u ''```html'') [] response else response);
          r2 = (if endswith r1 (u ''```'') then take (length r1 - 3) r1 else r1)
      in strip r2)"

section \<open>JSON values and the classification response\<close>

text \<open>
  The values \<open>json.loads\<close> produces. A float is a finite rational, an infinity or NaN
  (\<open>json.loads\<close> accepts \<open>NaN\<close> and \<open>Infinity\<close>); comparisons with NaN are false.
  A \<open>dict\<close> is an association list read with \<open>map_of\<close>.
\<close>

datatype pyfloat = Finite rat | PosInf | NegInf | NaN

datatype json =
    JNull
  | JBool bool
  | JInt int
  | JFloat pyfloat
  | JStr pystr
  | JList "json list"
  | JDict "(pystr \<times> json) list"

type_synonym pydict = "(pystr \<times> json) list"

definition has_key :: "pydict \<Rightarrow> pystr \<Rightarrow> bool" where
  "has_key d k = (map_of d k \<noteq> None)"

text \<open>\<open>isinstance(v, bool)\<close>.\<close>

fun is_bool :: "json \<Rightarrow> bool" where
  "is_bool (JBool b) = True"
| "is_bool v = False"

text \<open>\<open>isinstance(v, (int, float))\<close>: \<open>bool\<close> is a subclass of \<open>int\<close> in Python.\<close>

fun is_int_or_float :: "json \<Rightarrow> bool" where
  "is_int_or_float (JBool b) = True"
| "is_int_or_float (JInt i) = True"
| "is_int_or_float (JFloat f) = True"
| "is_int_or_float v = False"

text \<open>\<open>0.0 <= v <= 1.0\<close> for a value that passed \<open>is_int_or_float\<close>.\<close>

fun in_unit_range :: "json \<Rightarrow> bool" where
  "in_unit_range (JBool b) = (0 \<le> (if b then 1 else 0 :: int) \<and> (if b then 1 else 0 :: int) \<le> 1)"
| "in_unit_range (JInt i) = (0 \<le> i \<and> i \<le> 1)"
| "in_unit_range (JFloat (Finite r)) = (0 \<le> r \<and> r \<le> 1)"
| "in_unit_range v = False"

datatype validation_warning =
    ResponseNotDict
  | MissingRequiredFields
  | TableDetectedNotBool
  | ConfidenceNotIntFloat
  | ConfidenceOutOfRange

definition k_tableDetected :: pystr where
  "k_tableDetected = u ''tableDetected''"

definition k_confidenceScore :: pystr where
  "k_confidenceScore = u ''confidenceScore''"

definition required_fields :: "pystr list" where
  "required_fields = [k_tableDetected, k_confidenceScore]"

text \<open>
  \<open>validate_table_detection_response\<close>: the returned flag together with the warnings
  written to the log. A field is read only after the check that both fields are present.
\<close>

definition validate_table_detection_response :: "json \<Rightarrow> bool \<times> validation_warning list" where
  "validate_table_detection_response response =
     (case response of
        JDict d \<Rightarrow>
          if \<not> list_all (has_key d) required_fields then (False, [MissingRequiredFields])
          else (case (map_of d k_tableDetected, map_of d k_confidenceScore) of
                  (Some td, Some cs) \<Rightarrow>
                    if \<not> is_bool td then (False, [TableDetectedNotBool])
                    else if \<not> is_int_or_float cs then (False, [ConfidenceNotIntFloat])
                    else if \<not> in_unit_range cs then (True, [ConfidenceOutOfRange])
                    else (True, [])
                | _ \<Rightarrow> (False, [MissingRequiredFields]))
      | _ \<Rightarrow> (False, [ResponseNotDict]))"

section \<open>The generative classification endpoint\<close>

text \<open>
  Exceptions carry their class and their message (\<open>str(e)\<close>). \<open>OtherException\<close> stands for
  every class that is neither \<open>json.JSONDecodeError\<close> nor \<open>TypeError\<close> nor the
  \<open>ValueError\<close> the code raises itself.
\<close>

datatype exc_class = JSONDecodeError | TypeError | ValueError | OtherException

datatype exc = Exc exc_class pystr

fun exc_str :: "exc \<Rightarrow> pystr" where
  "exc_str (Exc c m) = m"

text \<open>The handler \<open>except (json.JSONDecodeError, TypeError)\<close>.\<close>

fun is_json_err :: "exc \<Rightarrow> bool" where
  "is_json_err (Exc c m) = (c = JSONDecodeError \<or> c = TypeError)"

text \<open>
  \<open>prompt_feedback.block_reason\<close>: either a \<open>str\<close>, or another object (the enumeration of
  the client library) given by its rendering; only a \<open>str\<close> can be equal to \<open>'STOP'\<close>.
\<close>

datatype block_reason = ReasonStr pystr | ReasonOther pystr

fun reason_str :: "block_reason \<Rightarrow> pystr" where
  "reason_str (ReasonStr s) = s"
| "reason_str (ReasonOther s) = s"

text \<open>
  What one call of \<open>generate_content\<close> gives: it raises (also when reading the response
  raises), or the response has no candidate or no part, with the prompt feedback if there
  is one (block reason, rendering of the safety ratings), or it has the text \<open>response.text\<close>.
\<close>

datatype api_response =
    Raises exc
  | NoContent "(block_reason \<times> pystr) option"
  | Content pystr

text \<open>Decimal rendering of an integer, for the f-strings.\<close>

fun str_nat :: "nat \<Rightarrow> pystr" where
  "str_nat n = (if n < 10 then [48 + n] else str_nat (n div 10) @ [48 + n mod 10])"

declare str_nat.simps [simp del]

definition str_int :: "int \<Rightarrow> pystr" where
  "str_int i = (if i < 0 then 45 # str_nat (nat (- i)) else str_nat (nat i))"

fun type_name :: "json \<Rightarrow> pystr" where
  "type_name JNull = u ''NoneType''"
| "type_name (JBool b) = u ''bool''"
| "type_name (JInt i) = u ''int''"
| "type_name (JFloat f) = u ''float''"
| "type_name (JStr s) = u ''str''"
| "type_name (JList xs) = u ''list''"
| "type_name (JDict d) = u ''dict''"

definition msg_empty_or_blocked :: "block_reason \<Rightarrow> pystr \<Rightarrow> pystr" where
  "msg_empty_or_blocked finish_reason safety_ratings =
     u ''Gemini response empty or blocked. Finish Reason: '' @ reason_str finish_reason
       @ u '', Safety: '' @ safety_ratings"

definition msg_not_dict :: "json \<Rightarrow> pystr" where
  "msg_not_dict v =
     u ''Parsed response is not a dictionary (type: <class '' @ [39] @ type_name v @ [39] @ u ''>)''"

definition msg_parse_failed :: "exc \<Rightarrow> pystr" where
  "msg_parse_failed e = u ''Failed to parse Gemini response as JSON: '' @ exc_str e"

definition msg_failed_after :: "int \<Rightarrow> exc \<Rightarrow> pystr" where
  "msg_failed_after max_retries e =
     u ''Gemini API call failed after '' @ str_int max_retries @ u '' attempts: '' @ exc_str e"

definition msg_failed_unexpectedly :: "int \<Rightarrow> pystr" where
  "msg_failed_unexpectedly max_retries =
     u ''Gemini API call failed unexpectedly after '' @ str_int max_retries @ u '' attempts.''"

definition k_error :: pystr where
  "k_error = u ''error''"

definition k_raw_text :: pystr where
  "k_raw_text = u ''raw_text''"

text \<open>What is observed of one call: the number of requests sent and the sleeps, in order.\<close>

record call_trace =
  attempts :: nat
  sleeps :: "int list"

definition no_calls :: call_trace where
  "no_calls = \<lparr>attempts = 0, sleeps = []\<rparr>"

text \<open>
  The body of the \<open>try\<close> of one attempt: it returns a dictionary, or it raises with the
  value \<open>response_text_for_logging\<close> has at that moment. \<open>loads\<close> is \<open>json.loads\<close>.
\<close>

datatype try_outcome = Returned pydict | Raised exc pystr

text \<open>
  \<open>prompt_feedback.block_reason if prompt_feedback else 'Unknown'\<close> and
  \<open>prompt_feedback.safety_ratings if prompt_feedback else 'N/A'\<close>.
\<close>

definition finish_reason_of :: "(block_reason \<times> pystr) option \<Rightarrow> block_reason" where
  "finish_reason_of prompt_feedback =
     (case prompt_feedback of None \<Rightarrow> ReasonStr (u ''Unknown'') | Some (b, s) \<Rightarrow> b)"

definition safety_ratings_of :: "(block_reason \<times> pystr) option \<Rightarrow> pystr" where
  "safety_ratings_of prompt_feedback =
     (case prompt_feedback of None \<Rightarrow> u ''N/A'' | Some (b, s) \<Rightarrow> s)"

definition attempt_body :: "(pystr \<Rightarrow> exc + json) \<Rightarrow> api_response \<Rightarrow> pystr \<Rightarrow> try_outcome" where
  "attempt_body loads resp response_text_for_logging =
     (case resp of
        Raises e \<Rightarrow> Raised e response_text_for_logging
      | NoContent prompt_feedback \<Rightarrow>
          (let finish_reason = finish_reason_of prompt_feedback;
               safety_ratings = safety_ratings_of prompt_feedback;
               error_msg = msg_empty_or_blocked finish_reason safety_ratings
           in if finish_reason \<noteq> ReasonStr (u ''STOP'')
              then Returned [(k_error, JStr error_msg)]
              else Raised (Exc ValueError error_msg) response_text_for_logging)
      | Content text \<Rightarrow>
          (case loads text of
             Inl e \<Rightarrow> Raised e text
           | Inr (JDict d) \<Rightarrow> Returned d
           | Inr v \<Rightarrow> Raised (Exc TypeError (msg_not_dict v)) text))"

text \<open>
  The loop \<open>for attempt in range(max_retries)\<close> over the attempts that remain. The endpoint
  is generative, so its behaviour during one call is a script: \<open>endpoint attempt\<close> is what
  the request of that attempt gives.
\<close>

fun attempts_loop ::
  "(pystr \<Rightarrow> exc + json) \<Rightarrow> (nat \<Rightarrow> api_response) \<Rightarrow> int \<Rightarrow> int \<Rightarrow> nat list \<Rightarrow> pystr
     \<Rightarrow> call_trace \<Rightarrow> pydict \<times> call_trace" where
  "attempts_loop loads endpoint max_retries delay [] txt tr =
     ([(k_error, JStr (msg_failed_unexpectedly max_retries))], tr)"
| "attempts_loop loads endpoint max_retries delay (attempt # rest) txt tr =
     (let tr1 = tr\<lparr>attempts := attempts tr + 1\<rparr> in
      case attempt_body loads (endpoint attempt) txt of
        Returned d \<Rightarrow> (d, tr1)
      | Raised e txt' \<Rightarrow>
          if is_json_err e
          then ([(k_error, JStr (msg_parse_failed e)), (k_raw_text, JStr txt')], tr1)
          else if int attempt < max_retries - 1
          then attempts_loop loads endpoint max_retries delay rest txt'
                 (tr1\<lparr>sleeps := sleeps tr1 @ [delay * 2 ^ attempt]\<rparr>)
          else ([(k_error, JStr (msg_failed_after max_retries e))], tr1))"

text \<open>
  \<open>call_gemini_for_json(prompt, max_retries, delay)\<close>; \<open>api_key\<close> tells whether
  \<open>GEMINI_API_KEY\<close> is set.
\<close>

definition call_gemini_for_json ::
  "bool \<Rightarrow> (pystr \<Rightarrow> exc + json) \<Rightarrow> (nat \<Rightarrow> api_response) \<Rightarrow> int \<Rightarrow> int
     \<Rightarrow> pydict \<times> call_trace" where
  "call_gemini_for_json api_key loads endpoint max_retries delay =
     (if \<not> api_key then ([(k_error, JStr (u ''GEMINI_API_KEY not configured.''))], no_calls)
      else attempts_loop loads endpoint max_retries delay [0..<nat max_retries] [] no_calls)"

text \<open>The defaults of the signature: \<open>max_retries = 3\<close>, \<open>delay = 5\<close>.\<close>

definition default_max_retries :: int where
  "default_max_retries = 3"

definition default_delay :: int where
  "default_delay = 5"

text \<open>
  The failures of one attempt that reach the handler \<open>except Exception\<close> without parsing
  anything: the request raises an exception of another class than the two parse classes, or
  the response is empty with the finish reason \<open>'STOP'\<close>. The value is the exception handled.
\<close>

fun transient_error :: "api_response \<Rightarrow> exc option" where
  "transient_error (Raises e) = (if is_json_err e then None else Some e)"
| "transient_error (NoContent prompt_feedback) =
     (if finish_reason_of prompt_feedback = ReasonStr (u ''STOP'')
      then Some (Exc ValueError (msg_empty_or_blocked (finish_reason_of prompt_feedback)
                                   (safety_ratings_of prompt_feedback)))
      else None)"
| "transient_error (Content text) = None"

section \<open>Table detection for one page\<close>

text \<open>
  The dictionary \<open>detect_table\<close> returns, without the wall-clock field \<open>response_time\<close>:
  \<open>response\<close>, and \<open>error\<close> (\<open>JNull\<close> for \<open>None\<close>).
\<close>

record detection_result =
  det_response :: pydict
  det_error :: json

definition msg_empty_input :: pystr where
  "msg_empty_input = u ''Input page text was empty.''"

definition msg_invalid_format :: pystr where
  "msg_invalid_format = u ''Parsed table detection response has invalid format or values.''"

definition default_response :: pydict where
  "default_response = [(k_tableDetected, JBool False), (k_confidenceScore, JFloat (Finite 0))]"

text \<open>
  \<open>detect_table(page_text)\<close>, with the requests it caused. The prompt is the fixed template
  with the page text in its single placeholder, so \<open>wrap_prompt\<close> cannot raise, and the model's
  \<open>call_gemini_for_json\<close> and \<open>validate_table_detection_response\<close> return in every case: the
  handler \<open>except Exception\<close> of \<open>detect_table\<close> has no branch here.
\<close>

definition detect_table ::
  "bool \<Rightarrow> (pystr \<Rightarrow> exc + json) \<Rightarrow> (nat \<Rightarrow> api_response) \<Rightarrow> pystr
     \<Rightarrow> detection_result \<times> call_trace" where
  "detect_table api_key loads endpoint page_text =
     (if page_text = [] \<or> strip page_text = []
      then (\<lparr>det_response = default_response, det_error = JStr msg_empty_input\<rparr>, no_calls)
      else
        (case call_gemini_for_json api_key loads endpoint default_max_retries default_delay of
           (parsed_data, tr) \<Rightarrow>
             (case map_of parsed_data k_error of
                Some err \<Rightarrow> (\<lparr>det_response = parsed_data, det_error = err\<rparr>, tr)
              | None \<Rightarrow>
                  if \<not> fst (validate_table_detection_response (JDict parsed_data))
                  then (\<lparr>det_response = parsed_data, det_error = JStr msg_invalid_format\<rparr>, tr)
                  else (\<lparr>det_response = parsed_data, det_error = JNull\<rparr>, tr))))"

section \<open>The page task\<close>

text \<open>Truth value of a Python object, as \<open>if x:\<close> tests it.\<close>

fun truthy :: "json \<Rightarrow> bool" where
  "truthy JNull = False"
| "truthy (JBool b) = b"
| "truthy (JInt i) = (i \<noteq> 0)"
| "truthy (JFloat f) = (f \<noteq> Finite 0)"
| "truthy (JStr s) = (s \<noteq> [])"
| "truthy (JList xs) = (xs \<noteq> [])"
| "truthy (JDict d) = (d \<noteq> [])"

definition empty_marker :: pystr where
  "empty_marker = u ''Input page text was empty''"

text \<open>
  \<open>"Input page text was empty" in err_msg\<close>: a substring test on a \<open>str\<close>, a membership
  test on a list or on the keys of a dictionary, and a \<open>TypeError\<close> on the other objects.
\<close>

fun contains_marker :: "json \<Rightarrow> exc + bool" where
  "contains_marker (JStr s) = Inr (sublist empty_marker s)"
| "contains_marker (JList xs) = Inr (JStr empty_marker \<in> set xs)"
| "contains_marker (JDict d) = Inr (has_key d empty_marker)"
| "contains_marker v =
     Inl (Exc TypeError (u ''argument of type '' @ [39] @ type_name v @ [39] @ u '' is not iterable''))"

text \<open>
  What the external tools do for one page: the splitter (\<open>save_pdf_page\<close> raises or not), the
  rasterizer (it raises, leaves the expected file, leaves a file that only the pattern
  matches, or leaves nothing), the OCR engine (the raw text, or it raises), the script of the
  classification endpoint, the result of \<open>extract_full_page_html_from_image\<close> (its \<open>error\<close>
  and \<open>html\<close> fields) and the writing of the HTML file.
\<close>

datatype convert_outcome = ConvertRaises exc | ExactImage | AdjustedImage | NoImage

record page_env =
  split_raises :: "exc option"
  convert_result :: convert_outcome
  ocr_result :: "exc + pystr"
  endpoint_script :: "nat \<Rightarrow> api_response"
  html_error :: "pystr option"
  html_generated :: pystr
  html_write_raises :: "exc option"

datatype page_error =
    SplitFailed exc
  | ConvertFailed exc
  | ImageNotFound
  | OcrFailed exc
  | TableDetection json
  | MarkerTestFailed exc
  | InvalidResponseFormat pydict
  | HtmlGen pystr
  | HtmlSaveFailed exc

text \<open>
  The work area's namespace of synthesized markup: page number to the content of
  \<open>page_<n>_full.html\<close>.
\<close>

type_synonym html_files = "nat \<Rightarrow> pystr option"

text \<open>
  The body of \<open>process_single_page\<close>: the pair it returns and the content it writes to
  \<open>page_<n>_full.html\<close>, if it writes that file. The first five error constructors are
  the messages of the handler for unhandled errors. \<open>html_result.get("error")\<close> is tested
  for its truth value, so an empty error string counts as no error.
\<close>

definition page_task ::
  "bool \<Rightarrow> (pystr \<Rightarrow> exc + json) \<Rightarrow> page_env \<Rightarrow> (bool \<times> page_error option) \<times> pystr option" where
  "page_task api_key loads env =
     (case split_raises env of
        Some e \<Rightarrow> ((False, Some (SplitFailed e)), None)
      | None \<Rightarrow>
      (case convert_result env of
        ConvertRaises e \<Rightarrow> ((False, Some (ConvertFailed e)), None)
      | NoImage \<Rightarrow> ((False, Some ImageNotFound), None)
      | _ \<Rightarrow>
      (case ocr_result env of
        Inl e \<Rightarrow> ((False, Some (OcrFailed e)), None)
      | Inr raw \<Rightarrow>
      (let page_text = strip raw;
           detection_result = fst (detect_table api_key loads (endpoint_script env) page_text)
       in if truthy (det_error detection_result)
          then (case contains_marker (det_error detection_result) of
                  Inl e \<Rightarrow> ((False, Some (MarkerTestFailed e)), None)
                | Inr found \<Rightarrow>
                    if \<not> found
                    then ((False, Some (TableDetection (det_error detection_result))), None)
                    else ((True, None), None))
          else
            (let parsed_detection = det_response detection_result in
             case map_of parsed_detection k_tableDetected of
               Some (JBool True) \<Rightarrow>
                 (case (case html_error env of
                          None \<Rightarrow> None
                        | Some err \<Rightarrow> if err \<noteq> [] then Some err else None) of
                    Some err \<Rightarrow> ((False, Some (HtmlGen err)), None)
                  | None \<Rightarrow>
                      if html_generated env \<noteq> []
                      then (case html_write_raises env of
                              Some e \<Rightarrow> ((False, Some (HtmlSaveFailed e)), None)
                            | None \<Rightarrow>
                                ((True, None),
                                 Some (clean_ai_html_response (html_generated env))))
                      else ((True, None), None))
             | Some (JBool False) \<Rightarrow> ((True, None), None)
             | _ \<Rightarrow> ((False, Some (InvalidResponseFormat parsed_detection)), None))))))"

text \<open>
  \<open>process_single_page(page_index)\<close>: the pair it returns and the HTML namespace after it;
  the file written is the one of the page number \<open>page_index + 1\<close>.
\<close>

definition process_single_page ::
  "bool \<Rightarrow> (pystr \<Rightarrow> exc + json) \<Rightarrow> page_env \<Rightarrow> nat \<Rightarrow> html_files
     \<Rightarrow> (bool \<times> page_error option) \<times> html_files" where
  "process_single_page api_key loads env page_index files =
     (let page_num = page_index + 1 in
      case page_task api_key loads env of
        (r, written) \<Rightarrow>
          (r, (case written of
                 None \<Rightarrow> files
               | Some html_code \<Rightarrow> files(page_num \<mapsto> html_code))))"

section \<open>The page orchestrator\<close>

text \<open>
  The counters of \<open>process_pdf_in_tempdir\<close>: the number of failed pages and the first
  failure harvested (page number and message of the page).
\<close>

record harvest =
  failed_pages_processing_count :: nat
  overall_processing_error_message :: "(nat \<times> page_error option) option"

definition harvest_start :: harvest where
  "harvest_start = \<lparr>failed_pages_processing_count = 0, overall_processing_error_message = None\<rparr>"

text \<open>
  One turn of the loop over \<open>as_completed(futures)\<close>. A page task returns from its
  \<open>finally\<close> block in every case, so \<open>future.result()\<close> does not raise.
\<close>

definition harvest_result :: "nat \<Rightarrow> bool \<times> page_error option \<Rightarrow> harvest \<Rightarrow> harvest" where
  "harvest_result page_index r h =
     (case r of
        (page_success, page_err_msg_future) \<Rightarrow>
          if \<not> page_success
          then h\<lparr>failed_pages_processing_count := failed_pages_processing_count h + 1,
                 overall_processing_error_message :=
                   (case overall_processing_error_message h of
                      None \<Rightarrow> Some (page_index + 1, page_err_msg_future)
                    | Some m \<Rightarrow> Some m)\<rparr>
          else h)"


definition no_html_files :: html_files where
  "no_html_files = (\<lambda>page_num. None)"

datatype run_error =
    CouldNotCreateSubdirectories
  | PdfReadFailed
  | PageFailed nat "page_error option"
  | PagesEncounteredErrors nat


section \<open>The merger\<close>

text \<open>
  A PDF file as the merger sees it: the path does not exist, or it exists and reading it
  (or adding its first page) raises, or it reads as a list of pages.
\<close>

datatype 'p pdf_file = Missing | Corrupt | Pages "'p list"

text \<open>
  The tools of the merger: \<open>from_file page_num html\<close> is what \<open>pdfkit.from_file\<close> does for
  the HTML artifact of that page (\<open>None\<close>: it raises; otherwise the state of the converted
  file afterwards), \<open>original_raises page_num\<close> tells whether extracting the original page
  and writing it to its temporary file raises, and \<open>final_write_raises\<close> whether writing the
  merged document raises. A temporary file the merger wrote itself reads back as written.
\<close>

record 'p merge_env =
  from_file :: "nat \<Rightarrow> pystr \<Rightarrow> 'p pdf_file option"
  original_raises :: "nat \<Rightarrow> bool"
  final_write_raises :: bool

datatype source_description = HtmlConversion | OriginalPdf

datatype merge_message =
    HtmlConversionFailed nat
  | OriginalNotExtracted nat
  | PageWasEmpty nat source_description
  | MergingFailed nat source_description
  | SourcePdfMissing nat
  | NoPagesMerged
  | UnhandledMergeError

record 'p merge_state =
  merger :: "'p list"
  merge_is_successful :: bool
  overall_merge_error_message :: "merge_message option"

definition merge_start :: "'p merge_state" where
  "merge_start = \<lparr>merger = [], merge_is_successful = True, overall_merge_error_message = None\<rparr>"

text \<open>
  \<open>merge_is_successful = False; if not overall_merge_error_message:
  overall_merge_error_message = m\<close>.
\<close>

definition note_error :: "merge_message \<Rightarrow> 'p merge_state \<Rightarrow> 'p merge_state" where
  "note_error m st =
     st\<lparr>merge_is_successful := False,
        overall_merge_error_message :=
          (case overall_merge_error_message st of None \<Rightarrow> Some m | Some m' \<Rightarrow> Some m')\<rparr>"

text \<open>The last part of the loop body: the file at \<open>page_to_add_path\<close> is read and its first page added.\<close>

definition add_page_from ::
  "nat \<Rightarrow> source_description \<Rightarrow> 'p pdf_file \<Rightarrow> 'p merge_state \<Rightarrow> 'p merge_state" where
  "add_page_from page_num source_description page_to_add st =
     (case page_to_add of
        Missing \<Rightarrow> note_error (SourcePdfMissing page_num) st
      | Corrupt \<Rightarrow> note_error (MergingFailed page_num source_description) st
      | Pages ps \<Rightarrow>
          (case ps of
             [] \<Rightarrow> note_error (PageWasEmpty page_num source_description) st
           | q # qs \<Rightarrow> st\<lparr>merger := merger st @ [q]\<rparr>))"

text \<open>The loop body for the index \<open>i\<close>, whose original page is \<open>p\<close>.\<close>

definition merge_page ::
  "'p merge_env \<Rightarrow> html_files \<Rightarrow> nat \<Rightarrow> 'p \<Rightarrow> 'p merge_state \<Rightarrow> 'p merge_state" where
  "merge_page env files i p st =
     (let page_num = i + 1 in
      case (case files page_num of
              None \<Rightarrow> (None, st)
            | Some html_file \<Rightarrow>
                (case from_file env page_num html_file of
                   None \<Rightarrow> (None, note_error (HtmlConversionFailed page_num) st)
                 | Some converted \<Rightarrow> (Some converted, st))) of
        (Some converted, st1) \<Rightarrow> add_page_from page_num HtmlConversion converted st1
      | (None, st1) \<Rightarrow>
          if original_raises env page_num
          then note_error (OriginalNotExtracted page_num) st1
          else add_page_from page_num OriginalPdf (Pages [p]) st1)"

text \<open>\<open>for i in range(total_pages)\<close>.\<close>

definition merge_loop :: "'p merge_env \<Rightarrow> html_files \<Rightarrow> 'p list \<Rightarrow> 'p merge_state" where
  "merge_loop env files pages =
     fold (\<lambda>i st. merge_page env files i (pages ! i) st) [0..<length pages] merge_start"

text \<open>
  \<open>merge_final_pdf\<close>: \<open>source\<close> is the list of pages of the original document, or \<open>None\<close>
  when reading it raises. The second component stands for \<open>final_output_pdf_path\<close>: the
  pages of the merged file when a path is returned, \<open>None\<close> when \<open>None\<close> is returned.
\<close>

definition merge_final_pdf ::
  "'p merge_env \<Rightarrow> 'p list option \<Rightarrow> html_files \<Rightarrow> bool \<times> 'p list option \<times> merge_message option" where
  "merge_final_pdf env source files =
     (case source of
        None \<Rightarrow> (False, None, Some UnhandledMergeError)
      | Some pages \<Rightarrow>
          (let st = merge_loop env files pages in
           if length (merger st) > 0
           then (if final_write_raises env then (False, None, Some UnhandledMergeError)
                 else (merge_is_successful st, Some (merger st), overall_merge_error_message st))
           else (False, None,
                 (case overall_merge_error_message st of
                    None \<Rightarrow> Some NoPagesMerged | Some m \<Rightarrow> Some m))))"

text \<open>
  What the loop body appends for the index \<open>i\<close>: the first page of the converted file, or
  the original page, or nothing.
\<close>

definition appended_pages :: "'p merge_env \<Rightarrow> html_files \<Rightarrow> nat \<Rightarrow> 'p \<Rightarrow> 'p list" where
  "appended_pages env files i p =
     (case files (i + 1) of
        None \<Rightarrow> if original_raises env (i + 1) then [] else [p]
      | Some html_file \<Rightarrow>
          (case from_file env (i + 1) html_file of
             None \<Rightarrow> if original_raises env (i + 1) then [] else [p]
           | Some (Pages (q # qs)) \<Rightarrow> [q]
           | Some other \<Rightarrow> []))"

section \<open>The verdict of a run\<close>

text \<open>
  Modelled from the spec: the caller of \<open>process_pdf_in_tempdir\<close> and \<open>merge_final_pdf\<close>
  that turns their results into the verdict of the run is not in the sources. The
  specification gives three verdicts: a run is a full success when no page failed and the
  merge succeeded without degraded substitution; a run that produces no output artifact
  has failed; a run that produces its output with failed or degraded pages has succeeded
  with degraded pages.
\<close>

datatype verdict = Succeeded | SucceededWithDegradedPages | Failed

definition run_verdict ::
  "bool \<times> run_error option \<Rightarrow> bool \<times> 'p list option \<times> merge_message option \<Rightarrow> verdict" where
  "run_verdict processing merge =
     (case merge of
        (merge_ok, output, merge_msg) \<Rightarrow>
          (case output of
             None \<Rightarrow> Failed
           | Some pages \<Rightarrow>
               if fst processing \<and> merge_ok then Succeeded else SucceededWithDegradedPages))"

section \<open>Concrete scenarios\<close>

text \<open>Scripts of the endpoint and of the parser on which the properties are evaluated.\<close>

definition always_timeout :: "nat \<Rightarrow> api_response" where
  "always_timeout a = Raises (Exc OtherException (u ''timeout''))"

definition loads_fail :: "pystr \<Rightarrow> exc + json" where
  "loads_fail t = Inl (Exc JSONDecodeError (u ''Expecting value''))"

definition blocked_for_safety :: "nat \<Rightarrow> api_response" where
  "blocked_for_safety a = NoContent (Some (ReasonOther (u ''SAFETY''), u ''[]''))"


definition blank_page_env :: page_env where
  "blank_page_env = \<lparr>split_raises = None, convert_result = ExactImage,
     ocr_result = Inr (u '' \<newline>''), endpoint_script = always_timeout, html_error = None,
     html_generated = [], html_write_raises = None\<rparr>"

definition two_pages :: "string list" where
  "two_pages = [''page 1'', ''page 2'']"



text \<open>Every rendering gives an empty document and no original page can be extracted.\<close>

definition nothing_mergeable :: "string merge_env" where
  "nothing_mergeable =
     \<lparr>from_file = (\<lambda>page_num html_file. Some (Pages [])), original_raises = (\<lambda>page_num. True),
      final_write_raises = False\<rparr>"

definition html_for_page_1 :: html_files where
  "html_for_page_1 = (\<lambda>page_num. if page_num = 1 then Some (u ''<html></html>'') else None)"

text \<open>The renderer raises for page 3 and renders page 2; every original page can be extracted.\<close>

definition renderer_fails_on_3 :: "string merge_env" where
  "renderer_fails_on_3 =
     \<lparr>from_file = (\<lambda>page_num html_file. if page_num = 3 then None
                                        else Some (Pages [''rendered page 2''])),
      original_raises = (\<lambda>page_num. False), final_write_raises = False\<rparr>"







definition html_for_page_2 :: html_files where
  "html_for_page_2 = (\<lambda>page_num. if page_num = 2 then Some (u ''<html></html>'') else None)"


section \<open>Properties of the string operations\<close>

lemma dropWhile_all: "(\<forall>x\<in>set s. P x) \<Longrightarrow> dropWhile P s = []"
  by (induction s) auto

lemma dropWhile_Nil_all: "dropWhile P s = [] \<Longrightarrow> (\<forall>x\<in>set s. P x)"
  by (induction s) (auto split: if_splits)

lemma strip_empty_iff: "strip s = [] \<longleftrightarrow> list_all py_isspace s"
proof
  assume e: "strip s = []"
  then have "dropWhile py_isspace (rev (dropWhile py_isspace s)) = []"
    unfolding strip_def lstrip_def rstrip_def by (metis rev_is_Nil_conv)
  then have all: "\<forall>x\<in>set (dropWhile py_isspace s). py_isspace x"
    using dropWhile_Nil_all [of py_isspace "rev (dropWhile py_isspace s)"] by (metis set_rev)
  have "dropWhile py_isspace s = []"
  proof (rule ccontr)
    assume ne: "dropWhile py_isspace s \<noteq> []"
    then have "\<not> py_isspace (hd (dropWhile py_isspace s))" by (rule hd_dropWhile)
    moreover have "hd (dropWhile py_isspace s) \<in> set (dropWhile py_isspace s)"
      using ne by (rule hd_in_set)
    ultimately show False using all by blast
  qed
  then show "list_all py_isspace s"
    using dropWhile_Nil_all [of py_isspace s] by (metis list_all_iff)
next
  assume "list_all py_isspace s"
  then have "\<forall>x\<in>set s. py_isspace x" by (metis list_all_iff)
  then have "dropWhile py_isspace s = []"
    by (rule dropWhile_all)
  then show "strip s = []"
    unfolding strip_def lstrip_def rstrip_def by (metis dropWhile.simps(1) rev.simps(1))
qed

lemma replace_first_prefix: "old \<noteq> [] \<Longrightarrow> replace_first old new (old @ s) = new @ s"
  by (cases old) simp_all

text \<open>
  A response wrapped in the two fence markers is reduced to the stripped text between
  them, whatever that text is.
\<close>

lemma clean_fenced: "clean_ai_html_response (u ''```html'' @ b @ u ''```'') = strip b"
proof -
  have ne: "u ''```html'' \<noteq> []" by (simp add: u_def)
  have l: "length (u ''```'') = 3" by (simp add: u_def)
  have s: "suffix (u ''```'') (b @ u ''```'')" by (simp add: suffix_def)
  show ?thesis
    by (simp add: clean_ai_html_response_def startswith_def endswith_def Let_def
        replace_first_prefix [OF ne] l s)
qed

text \<open>
  Claim C9. Cleaning the markup text \<open>```html\n<html>...</html>\n```\<close> yields exactly
  \<open><html>...</html>\<close>: the leading \<open>```html\<close>, the trailing \<open>```\<close> and the two
  line breaks are gone, and no fence marker is left at either end of the output.
\<close>

theorem clean_ai_html_response_fenced_example:
  "clean_ai_html_response (u ''```html\<newline><html>...</html>\<newline>```'') = u ''<html>...</html>''
   \<and> \<not> startswith (clean_ai_html_response (u ''```html\<newline><html>...</html>\<newline>```'')) (u ''```'')
   \<and> \<not> endswith (clean_ai_html_response (u ''```html\<newline><html>...</html>\<newline>```'')) (u ''```'')"
  by (simp add: clean_ai_html_response_def u_def startswith_def endswith_def strip_def
      lstrip_def rstrip_def py_isspace_def suffix_def)

section \<open>Validation of the classification response\<close>

lemma k_neq: "k_tableDetected \<noteq> k_confidenceScore" "k_confidenceScore \<noteq> k_tableDetected"
  by (simp_all add: k_tableDetected_def k_confidenceScore_def u_def)

lemma validate_dict:
  "validate_table_detection_response (JDict d) =
     (case (map_of d k_tableDetected, map_of d k_confidenceScore) of
        (Some td, Some cs) \<Rightarrow>
          if \<not> is_bool td then (False, [TableDetectedNotBool])
          else if \<not> is_int_or_float cs then (False, [ConfidenceNotIntFloat])
          else if \<not> in_unit_range cs then (True, [ConfidenceOutOfRange])
          else (True, [])
      | _ \<Rightarrow> (False, [MissingRequiredFields]))"
  by (auto simp: validate_table_detection_response_def required_fields_def has_key_def
      split: option.splits)

text \<open>
  Claim C3. For a response dictionary: when a required field is missing the response is
  rejected; when \<open>tableDetected\<close> is not a \<open>bool\<close>, or \<open>confidenceScore\<close> is not
  an \<open>int\<close> or \<open>float\<close> (Python's \<open>isinstance\<close>), it is rejected; when both fields
  have the right type and \<open>confidenceScore\<close> lies outside \<open>[0.0, 1.0]\<close> the response is
  accepted and the only effect is the out-of-range warning.
\<close>

theorem validate_table_detection_response_asymmetry:
  "(map_of d k_tableDetected = None \<or> map_of d k_confidenceScore = None
      \<longrightarrow> validate_table_detection_response (JDict d) = (False, [MissingRequiredFields]))
   \<and> (map_of d k_tableDetected = Some td \<and> map_of d k_confidenceScore = Some cs \<and> \<not> is_bool td
      \<longrightarrow> validate_table_detection_response (JDict d) = (False, [TableDetectedNotBool]))
   \<and> (map_of d k_tableDetected = Some td \<and> map_of d k_confidenceScore = Some cs \<and> is_bool td
        \<and> \<not> is_int_or_float cs
      \<longrightarrow> validate_table_detection_response (JDict d) = (False, [ConfidenceNotIntFloat]))
   \<and> (map_of d k_tableDetected = Some td \<and> map_of d k_confidenceScore = Some cs \<and> is_bool td
        \<and> is_int_or_float cs \<and> \<not> in_unit_range cs
      \<longrightarrow> validate_table_detection_response (JDict d) = (True, [ConfidenceOutOfRange]))"
  by (auto simp: validate_dict split: option.splits)

theorem validate_table_detection_response_asymmetry_witness:
  "validate_table_detection_response (JDict [(k_tableDetected, JBool True)]) = (False, [MissingRequiredFields])
   \<and> validate_table_detection_response (JDict [(k_tableDetected, JStr (u ''yes'')), (k_confidenceScore, JFloat (Finite 0.5))])
       = (False, [TableDetectedNotBool])
   \<and> validate_table_detection_response (JDict [(k_tableDetected, JBool True), (k_confidenceScore, JStr (u ''0.9''))])
       = (False, [ConfidenceNotIntFloat])
   \<and> validate_table_detection_response (JDict [(k_tableDetected, JBool True), (k_confidenceScore, JFloat (Finite 1.5))])
       = (True, [ConfidenceOutOfRange])"
  using validate_table_detection_response_asymmetry
          [of "[(k_tableDetected, JBool True)]" "JBool True" "JNull"]
        validate_table_detection_response_asymmetry
          [of "[(k_tableDetected, JStr (u ''yes'')), (k_confidenceScore, JFloat (Finite 0.5))]"
              "JStr (u ''yes'')" "JFloat (Finite 0.5)"]
        validate_table_detection_response_asymmetry
          [of "[(k_tableDetected, JBool True), (k_confidenceScore, JStr (u ''0.9''))]"
              "JBool True" "JStr (u ''0.9'')"]
        validate_table_detection_response_asymmetry
          [of "[(k_tableDetected, JBool True), (k_confidenceScore, JFloat (Finite 1.5))]"
              "JBool True" "JFloat (Finite 1.5)"]
  by (simp add: k_neq)

text \<open>
  Claim C10. The response \<open>{tableDetected: false, confidenceScore: true}\<close>, whose
  confidence score is a boolean, passes validation without any warning: \<open>bool\<close> is
  admitted by the \<open>(int, float)\<close> type check and \<open>True\<close> lies within \<open>[0.0, 1.0]\<close>.
\<close>

theorem validate_accepts_boolean_confidence:
  "validate_table_detection_response
     (JDict [(k_tableDetected, JBool False), (k_confidenceScore, JBool True)]) = (True, [])"
  by (simp add: validate_dict k_neq)


section \<open>The retry policy of the classifier call\<close>

lemma attempt_body_transient:
  "transient_error r = Some e \<Longrightarrow> attempt_body loads r txt = Raised e txt \<and> \<not> is_json_err e"
  by (cases r) (auto simp: attempt_body_def Let_def split: if_splits)

lemma attempts_loop_all_transient:
  assumes "\<forall>a. k \<le> a \<and> a < n \<longrightarrow> transient_error (endpoint a) \<noteq> None" and "k < n"
  shows "attempts_loop loads endpoint (int n) d [k..<n] rtl tr =
           ([(k_error, JStr (msg_failed_after (int n) (the (transient_error (endpoint (n - 1))))))],
            tr\<lparr>attempts := attempts tr + (n - k),
               sleeps := sleeps tr @ map (\<lambda>a. d * 2 ^ a) [k..<n - 1]\<rparr>)"
  using assms
proof (induction "n - k" arbitrary: k rtl tr)
  case 0
  then show ?case by simp
next
  case (Suc m)
  from Suc.prems have "transient_error (endpoint k) \<noteq> None" by simp
  then obtain e where e: "transient_error (endpoint k) = Some e" by blast
  note body = attempt_body_transient [OF e, of loads rtl]
  have upt: "[k..<n] = k # [Suc k..<n]" using Suc.prems by (simp add: upt_conv_Cons)
  show ?case
  proof (cases "Suc k < n")
    case True
    have m: "m = n - Suc k" using Suc.hyps by simp
    have all: "\<forall>a. Suc k \<le> a \<and> a < n \<longrightarrow> transient_error (endpoint a) \<noteq> None"
      using Suc.prems by simp
    have upt2: "[k..<n - Suc 0] = k # [Suc k..<n - Suc 0]" using True by (simp add: upt_conv_Cons)
    have lt: "int k < int n - 1" using True by simp
    show ?thesis
      using Suc.hyps(1) [OF m all True] True
      by (simp add: upt body lt upt2 Let_def)
  next
    case False
    then have kn: "n = Suc k" using Suc.prems by simp
    show ?thesis by (simp add: kn body e Let_def)
  qed
qed

lemma attempts_loop_returned:
  "attempt_body loads (endpoint a) txt = Returned d \<Longrightarrow>
   attempts_loop loads endpoint max_retries delay (a # rest) txt tr = (d, tr\<lparr>attempts := attempts tr + 1\<rparr>)"
  by (simp add: Let_def)


lemma upt_first: "0 < max_retries \<Longrightarrow> [0..<nat max_retries] = 0 # [1..<nat max_retries]"
  by (simp add: upt_conv_Cons)

text \<open>
  Claim C4. With the defaults (3 attempts, base delay 5), a call whose three attempts all
  fail with a transient error sends exactly 3 requests, sleeps 5 seconds after the first
  failure and 10 seconds after the second, and returns the error of the last attempt.
\<close>

theorem call_gemini_for_json_transient_three_attempts:
  assumes "\<forall>a<3. transient_error (endpoint a) \<noteq> None"
  shows "call_gemini_for_json True loads endpoint default_max_retries default_delay =
           ([(k_error, JStr (msg_failed_after 3 (the (transient_error (endpoint 2)))))],
            \<lparr>attempts = 3, sleeps = [5, 10]\<rparr>)"
proof -
  have all: "\<forall>a. 0 \<le> a \<and> a < 3 \<longrightarrow> transient_error (endpoint a) \<noteq> None"
    using assms by simp
  have "[0..<3 - 1] = [0, Suc 0]" by (simp add: upt_conv_Cons)
  then show ?thesis
    using attempts_loop_all_transient [OF all, of loads default_delay "[]" no_calls]
    by (simp add: call_gemini_for_json_def default_max_retries_def default_delay_def no_calls_def)
qed

theorem call_gemini_for_json_transient_three_attempts_witness:
  "transient_error (always_timeout 0) \<noteq> None \<and> transient_error (always_timeout 1) \<noteq> None
   \<and> transient_error (always_timeout 2) \<noteq> None \<and>
   call_gemini_for_json True loads_fail always_timeout default_max_retries default_delay =
     ([(k_error, JStr (msg_failed_after 3 (Exc OtherException (u ''timeout''))))],
      \<lparr>attempts = 3, sleeps = [5, 10]\<rparr>)"
proof -
  have h: "\<forall>a<3. transient_error (always_timeout a) \<noteq> None"
    by (simp add: always_timeout_def)
  have e: "the (transient_error (always_timeout 2)) = Exc OtherException (u ''timeout'')"
    by (simp add: always_timeout_def)
  have c: "transient_error (always_timeout 0) \<noteq> None \<and> transient_error (always_timeout 1) \<noteq> None
           \<and> transient_error (always_timeout 2) \<noteq> None"
    by (simp add: always_timeout_def)
  show ?thesis
    using c call_gemini_for_json_transient_three_attempts [OF h, of loads_fail]
    by (simp add: e)
qed

text \<open>
  Claim C5. When the response of the first request is empty or blocked and its finish
  reason is not \<open>'STOP'\<close>, the call returns the error after exactly 1 request, without
  any sleep and without a second request.
\<close>

theorem call_gemini_for_json_blocked_not_retried:
  assumes "0 < max_retries" and "endpoint 0 = NoContent prompt_feedback"
    and "finish_reason_of prompt_feedback \<noteq> ReasonStr (u ''STOP'')"
  shows "call_gemini_for_json True loads endpoint max_retries delay =
           ([(k_error, JStr (msg_empty_or_blocked (finish_reason_of prompt_feedback)
                               (safety_ratings_of prompt_feedback)))],
            \<lparr>attempts = 1, sleeps = []\<rparr>)"
proof -
  have "attempt_body loads (endpoint 0) [] =
          Returned [(k_error, JStr (msg_empty_or_blocked (finish_reason_of prompt_feedback)
                               (safety_ratings_of prompt_feedback)))]"
    using assms by (simp add: attempt_body_def Let_def)
  then show ?thesis
    using assms(1)
    by (simp add: call_gemini_for_json_def upt_first attempts_loop_returned no_calls_def)
qed


theorem call_gemini_for_json_blocked_not_retried_witness:
  "(0::int) < 3
   \<and> blocked_for_safety 0 = NoContent (Some (ReasonOther (u ''SAFETY''), u ''[]''))
   \<and> finish_reason_of (Some (ReasonOther (u ''SAFETY''), u ''[]'')) \<noteq> ReasonStr (u ''STOP'')
   \<and> call_gemini_for_json True loads_fail blocked_for_safety 3 5 =
       ([(k_error, JStr (msg_empty_or_blocked (ReasonOther (u ''SAFETY'')) (u ''[]'')))],
        \<lparr>attempts = 1, sleeps = []\<rparr>)"
proof -
  have h1: "(0::int) < 3" by simp
  have h2: "blocked_for_safety 0 = NoContent (Some (ReasonOther (u ''SAFETY''), u ''[]''))"
    by (simp add: blocked_for_safety_def)
  have h3: "finish_reason_of (Some (ReasonOther (u ''SAFETY''), u ''[]'')) \<noteq> ReasonStr (u ''STOP'')"
    by (simp add: finish_reason_of_def)
  show ?thesis
    using h1 h2 h3
      call_gemini_for_json_blocked_not_retried
        [where endpoint = blocked_for_safety and loads = loads_fail and delay = 5
           and max_retries = 3
           and prompt_feedback = "Some (ReasonOther (u ''SAFETY''), u ''[]'')", OF h1 h2 h3]
    by (simp add: finish_reason_of_def safety_ratings_of_def)
qed


section \<open>Empty page text\<close>

lemma marker_in_msg: "sublist empty_marker msg_empty_input"
proof -
  have "msg_empty_input = [] @ empty_marker @ u ''.''"
    by (simp add: msg_empty_input_def empty_marker_def u_def)
  then show ?thesis unfolding sublist_def by blast
qed

lemma msg_empty_input_ne: "msg_empty_input \<noteq> []"
  by (simp add: msg_empty_input_def u_def)

lemma strip_whitespace: "list_all py_isspace raw \<Longrightarrow> strip raw = []"
  by (simp add: strip_empty_iff)

lemma detect_table_whitespace:
  "list_all py_isspace page_text \<Longrightarrow>
   detect_table api_key loads ep page_text =
     (\<lparr>det_response = default_response, det_error = JStr msg_empty_input\<rparr>, no_calls)"
  by (simp add: detect_table_def strip_empty_iff)

text \<open>
  Claim C2. For a page text that is empty or consists of white space only, \<open>detect_table\<close>
  returns the default response \<open>{tableDetected: False, confidenceScore: 0.0}\<close> with the
  empty-input message and sends no request to the classification endpoint; a page task
  whose OCR text is such a text returns success with no error message, and harvesting that
  result leaves the failure counters as they are.
\<close>

theorem empty_text_is_not_a_failure:
  assumes "list_all py_isspace page_text"
    and "split_raises env = None"
    and "convert_result env = ExactImage \<or> convert_result env = AdjustedImage"
    and "ocr_result env = Inr page_text"
  shows "detect_table api_key loads ep page_text =
           (\<lparr>det_response = default_response, det_error = JStr msg_empty_input\<rparr>, no_calls)
         \<and> attempts (snd (detect_table api_key loads ep page_text)) = 0
         \<and> process_single_page api_key loads env page_index files = ((True, None), files)
         \<and> harvest_result page_index
               (fst (process_single_page api_key loads env page_index files)) h = h"
proof -
  have s: "strip page_text = []" using assms(1) by (rule strip_whitespace)
  have d: "\<And>e. detect_table api_key loads e [] =
           (\<lparr>det_response = default_response, det_error = JStr msg_empty_input\<rparr>, no_calls)"
    by (simp add: detect_table_def)
  have p: "process_single_page api_key loads env page_index files = ((True, None), files)"
    using assms(2,3,4)
    by (auto simp: process_single_page_def page_task_def s d marker_in_msg msg_empty_input_ne)
  show ?thesis
    using assms(1) p by (simp add: detect_table_whitespace no_calls_def harvest_result_def)
qed

theorem empty_text_is_not_a_failure_witness:
  "list_all py_isspace (u '' \<newline>'')
   \<and> split_raises blank_page_env = None
   \<and> convert_result blank_page_env = ExactImage
   \<and> ocr_result blank_page_env = Inr (u '' \<newline>'')
   \<and> detect_table True loads_fail always_timeout (u '' \<newline>'') =
       (\<lparr>det_response = default_response, det_error = JStr msg_empty_input\<rparr>, no_calls)
   \<and> attempts (snd (detect_table True loads_fail always_timeout (u '' \<newline>''))) = 0
   \<and> process_single_page True loads_fail blank_page_env 0 no_html_files =
       ((True, None), no_html_files)
   \<and> harvest_result 0 (fst (process_single_page True loads_fail blank_page_env 0 no_html_files))
         harvest_start = harvest_start"
proof -
  have h1: "list_all py_isspace (u '' \<newline>'')" by (simp add: u_def py_isspace_def)
  have h2: "split_raises blank_page_env = None" by (simp add: blank_page_env_def)
  have h3: "convert_result blank_page_env = ExactImage \<or> convert_result blank_page_env = AdjustedImage"
    by (simp add: blank_page_env_def)
  have h3': "convert_result blank_page_env = ExactImage" by (simp add: blank_page_env_def)
  have h4: "ocr_result blank_page_env = Inr (u '' \<newline>'')" by (simp add: blank_page_env_def)
  show ?thesis
    using h1 h2 h3' h4
      empty_text_is_not_a_failure
        [where page_text = "u '' \<newline>''" and env = blank_page_env and api_key = True
           and loads = loads_fail and ep = always_timeout and page_index = 0
           and files = no_html_files and h = harvest_start, OF h1 h2 h3 h4]
    by blast
qed

section \<open>The merger: pages appended, in order\<close>









section \<open>The merger: the success flag\<close>










text \<open>
  Claim C8. When the loop of the merger has appended no page, \<open>merge_final_pdf\<close> reports a
  failure, returns no output path, and gives an error message; the verdict of the run is
  failed.
\<close>

theorem no_page_merged_is_hard_failure:
  assumes "merger (merge_loop env files pages) = []"
  shows "merge_final_pdf env (Some pages) files =
           (False, None,
            Some (case overall_merge_error_message (merge_loop env files pages) of
                    None \<Rightarrow> NoPagesMerged | Some m \<Rightarrow> m))
         \<and> run_verdict processing (merge_final_pdf env (Some pages) files) = Failed"
  using assms
  by (simp add: merge_final_pdf_def Let_def run_verdict_def split: option.splits)

section \<open>Page tasks write only their own artifact\<close>




section \<open>The merged document\<close>




section \<open>The properties on the concrete scenarios\<close>




lemma merge_loop_nothing_mergeable:
  "merge_loop nothing_mergeable html_for_page_1 two_pages =
     \<lparr>merger = [], merge_is_successful = False,
      overall_merge_error_message = Some (PageWasEmpty 1 HtmlConversion)\<rparr>"
  by (simp add: merge_loop_def merge_page_def add_page_from_def note_error_def merge_start_def
      nothing_mergeable_def html_for_page_1_def two_pages_def Let_def)

theorem no_page_merged_is_hard_failure_witness:
  "merger (merge_loop nothing_mergeable html_for_page_1 two_pages) = []
   \<and> merge_final_pdf nothing_mergeable (Some two_pages) html_for_page_1 =
       (False, None, Some (PageWasEmpty 1 HtmlConversion))
   \<and> run_verdict (True, None) (merge_final_pdf nothing_mergeable (Some two_pages) html_for_page_1)
       = Failed"
proof -
  have h: "merger (merge_loop nothing_mergeable html_for_page_1 two_pages) = []"
    by (simp add: merge_loop_nothing_mergeable)
  note t = no_page_merged_is_hard_failure
             [where env = nothing_mergeable and files = html_for_page_1 and pages = two_pages
                and processing = "(True, None)", OF h]
  have r: "merge_final_pdf nothing_mergeable (Some two_pages) html_for_page_1 =
       (False, None, Some (PageWasEmpty 1 HtmlConversion))"
    using t by (simp add: merge_loop_nothing_mergeable)
  have v: "run_verdict (True, None)
             (merge_final_pdf nothing_mergeable (Some two_pages) html_for_page_1) = Failed"
    using t by blast
  show ?thesis
    using h r v by blast
qed







lemma appended_example_run:
  "appended_pages renderer_fails_on_3 html_for_page_2 i p \<noteq> []"
  by (simp add: appended_pages_def renderer_fails_on_3_def html_for_page_2_def)


end
